theory Spec2Isabelle
  imports Main "HOL-Library.Word" "HOL-Library.Signed_Division"
begin

unbundle bit_operations_syntax

section \<open>Go values shared by the models\<close>

text \<open>
  Go's \<open>int\<close> is the 64-bit two's complement integer of the usual platforms: \<open>+\<close> and
  \<open>*\<close> wrap around, comparisons are signed (\<open><s\<close>, \<open>\<le>s\<close>), and \<open>%\<close> truncates towards
  zero, so that its result has the sign of the dividend. An \<open>error\<close> is observed only
  through its message; \<open>nil\<close> is \<open>None\<close>.
\<close>

type_synonym go_int = "64 word"
type_synonym go_int32 = "32 word"
type_synonym go_error = "string option"

definition go_rem :: "go_int \<Rightarrow> go_int \<Rightarrow> go_int" where
  "go_rem a b = word_of_int (sint a smod sint b)"

definition errors_New :: "string \<Rightarrow> go_error" where
  "errors_New msg = Some msg"

section \<open>The error-handling demo: \<open>handleError\<close> and \<open>doubleEven\<close>\<close>

text \<open>
  \<^verbatim>\<open>
  func handleError() { fmt.Printf("hello world!") }

  func doubleEven(i int) (int, error) {
      if i%2 != 0 {
          return 0, errors.New("only even number are processed")
      }
      return i * 2, nil
  }
  \<close>
  \<open>handleError\<close> takes the text written to standard output so far and returns it
  extended.
\<close>

definition handleError :: "string \<Rightarrow> string" where
  "handleError out = out @ ''hello world!''"

definition doubleEven :: "go_int \<Rightarrow> go_int \<times> go_error" where
  "doubleEven i =
     (if go_rem i 2 \<noteq> 0 then (0, errors_New ''only even number are processed'')
      else (i * 2, None))"

subsection \<open>Properties of \<open>doubleEven\<close>\<close>

lemma smod_two_cases:
  "(k::int) smod 2 = (if even k then 0 else if 0 < k then 1 else - 1)"
  by (auto simp: signed_modulo_int_def sgn_if mod_2_eq_odd)

lemma go_rem_two: "go_rem i 2 \<noteq> 0 \<longleftrightarrow> odd (sint i)"
  by (simp add: go_rem_def smod_two_cases)

text \<open>
  The product \<open>i * 2\<close> is Go's: it wraps at 64 bits. Away from the two ends of the
  range it is the mathematical double.
\<close>

lemma doubleEven_no_wrap:
  "even (sint i) \<Longrightarrow> - (2 ^ 62) \<le> sint i \<Longrightarrow> sint i < 2 ^ 62
   \<Longrightarrow> sint (fst (doubleEven i)) = 2 * sint i"
  by (simp add: doubleEven_def go_rem_two sint_word_ariths signed_take_bit_int_eq_self)

text \<open>
  Claim C8. For every \<open>int\<close> value \<open>i\<close>, \<open>doubleEven i\<close> is \<open>(2 * i, nil)\<close> when \<open>i\<close> is
  even and \<open>(0, e)\<close> with \<open>e\<close> the error of message "only even number are processed"
  when \<open>i\<close> is odd, negative odd numbers included; an error is returned if and only
  if \<open>i\<close> is odd. The product is Go's \<open>int\<close> product, which is the mathematical double
  of \<open>i\<close> for every \<open>i\<close> from \<open>- 2 ^ 62\<close> up to \<open>2 ^ 62 - 1\<close>.
\<close>

theorem doubleEven_even_odd:
  "doubleEven i =
     (if even (sint i) then (2 * i, None)
      else (0, Some ''only even number are processed''))
   \<and> (snd (doubleEven i) \<noteq> None) = odd (sint i)
   \<and> (even (sint i) \<and> - (2 ^ 62) \<le> sint i \<and> sint i < 2 ^ 62 \<longrightarrow>
        sint (fst (doubleEven i)) = 2 * sint i)"
  using doubleEven_no_wrap [of i]
  by (simp add: doubleEven_def go_rem_two errors_New_def)

theorem doubleEven_even_odd_witness:
  "doubleEven 6 = (12, None)
   \<and> doubleEven (- 7) = (0, Some ''only even number are processed'')
   \<and> sint (fst (doubleEven 6)) = 12"
  using doubleEven_even_odd [of 6] doubleEven_even_odd [of "- 7"]
  by simp

section \<open>The goroutine pool: \<open>Config\<close>, \<open>DefaultConfig\<close> and \<open>NewPool\<close>\<close>

text \<open>
  A call ends in one of three ways: it returns a value, it returns an error (observed
  through its message; \<open>NewPool\<close> then returns a nil pool), or it panics.
  A buffered channel is its capacity and its buffered elements. \<open>make(chan T, n)\<close>
  panics when \<open>n\<close> is negative or beyond what the runtime can allocate; that limit
  is a constant of the platform, a parameter here.
\<close>

datatype 'a result = Ok 'a | Err string | Panicked string

record 'a chan =
  chan_cap :: go_int
  chan_buf :: "'a list"

definition make_chan :: "go_int \<Rightarrow> go_int \<Rightarrow> 'a chan option" where
  "make_chan maxSize n =
     (if n <s 0 \<or> maxSize <s n then None
      else Some \<lparr>chan_cap = n, chan_buf = []\<rparr>)"

text \<open>
  The structs of the sketch. Of \<open>Pool\<close>, the fields \<open>wg\<close>, \<open>mu\<close> and \<open>once\<close>
  (a wait group, a lock and a once-guard) are left at their zero values by \<open>NewPool\<close> and
  are not part of the record; the field \<open>closed\<close> is \<open>pool_closed\<close> here. The state of the program is the pool together with the
  goroutines started so far.
\<close>

record Config =
  MinWorkers :: go_int
  MaxWorkers :: go_int
  KeepAlive :: "64 word"
  QueueSize :: go_int

record 't Pool =
  minWorkers :: go_int32
  maxWorkers :: go_int32
  keepAlive :: "64 word"
  queueSize :: go_int
  currentWorkers :: go_int32
  idleWorkers :: go_int32
  runningTasks :: go_int32
  totalTasks :: "64 word"
  completedTasks :: "64 word"
  failedTasks :: "64 word"
  taskQueue :: "'t chan"
  workerQueue :: "'t chan chan"
  quit :: "unit chan"
  pool_closed :: go_int32

datatype goroutine = PoolDispatcher | PoolWorker

record 't PoolState =
  pool :: "'t Pool"
  goroutines :: "goroutine list"

record GoEnv =
  NumCPU :: go_int
  maxChanSize :: go_int

definition time_Second :: "64 word" where
  "time_Second = 1000000000"

definition DefaultConfig :: "GoEnv \<Rightarrow> Config" where
  "DefaultConfig env =
     (let numCPU = NumCPU env in
      \<lparr>MinWorkers = numCPU, MaxWorkers = numCPU * 2,
       KeepAlive = 60 * time_Second, QueueSize = 1000\<rparr>)"

text \<open>
  \<^verbatim>\<open>
  for i := 0; i < config.MinWorkers; i++ {
      pool.createWorker()
  }
  \<close>
  \<open>createWorker\<close> is called by the sketch and defined nowhere in it: it is a parameter,
  any function of the state.
\<close>

function createWorkers_loop ::
  "('s \<Rightarrow> 's) \<Rightarrow> go_int \<Rightarrow> go_int \<Rightarrow> 's \<Rightarrow> 's" where
  "createWorkers_loop createWorker i n s =
     (if i <s n then createWorkers_loop createWorker (i + 1) n (createWorker s) else s)"
  by pat_completeness auto

text \<open>
  \<open>NewPool\<close>, with \<open>config0 = None\<close> the nil \<open>*Config\<close>. The three channels are made in the
  order of the struct literal; \<open>go pool.dispatcher()\<close> adds the dispatcher to the
  goroutines.
\<close>

definition NewPool ::
  "GoEnv \<Rightarrow> ('t PoolState \<Rightarrow> 't PoolState) \<Rightarrow> Config option \<Rightarrow> 't PoolState result" where
  "NewPool env createWorker config0 =
     (let config = (case config0 of None \<Rightarrow> DefaultConfig env | Some c \<Rightarrow> c) in
      if MinWorkers config \<le>s 0 \<or> MaxWorkers config \<le>s 0
      then Err ''workers count must be positive''
      else if MaxWorkers config <s MinWorkers config
      then Err ''minWorkers cannot be greater than maxWorkers''
      else
        (case make_chan (maxChanSize env) (QueueSize config) of
           None \<Rightarrow> Panicked ''makechan: size out of range''
         | Some tq \<Rightarrow>
        (case make_chan (maxChanSize env) (MaxWorkers config) of
           None \<Rightarrow> Panicked ''makechan: size out of range''
         | Some wq \<Rightarrow>
        (case make_chan (maxChanSize env) 0 of
           None \<Rightarrow> Panicked ''makechan: size out of range''
         | Some q \<Rightarrow>
           (let p = \<lparr>minWorkers = ucast (MinWorkers config),
                     maxWorkers = ucast (MaxWorkers config),
                     keepAlive = KeepAlive config,
                     queueSize = QueueSize config,
                     currentWorkers = 0, idleWorkers = 0, runningTasks = 0,
                     totalTasks = 0, completedTasks = 0, failedTasks = 0,
                     taskQueue = tq, workerQueue = wq, quit = q, pool_closed = 0\<rparr>;
                s = createWorkers_loop createWorker 0 (MinWorkers config)
                      \<lparr>pool = p, goroutines = []\<rparr>
            in Ok (s\<lparr>goroutines := goroutines s @ [PoolDispatcher]\<rparr>))))))"

text \<open>
  A stand-in for the undefined \<open>createWorker\<close>, for concrete runs: it counts the worker
  and starts its goroutine.
\<close>

definition incWorker :: "'t PoolState \<Rightarrow> 't PoolState" where
  "incWorker s = s\<lparr>pool := (pool s)\<lparr>currentWorkers := currentWorkers (pool s) + 1\<rparr>,
                    goroutines := goroutines s @ [PoolWorker]\<rparr>"

definition env4 :: GoEnv where
  "env4 = \<lparr>NumCPU = 4, maxChanSize = 1048576\<rparr>"

subsection \<open>The worker loop terminates and runs \<open>MinWorkers\<close> times\<close>

lemma sint_succ_below: "i <s n \<Longrightarrow> sint (i + 1) = sint i + 1" for i n :: go_int
proof -
  assume "i <s n"
  then have "sint i < sint n" by (simp add: word_sless_alt)
  moreover have "sint n < 2 ^ 63" using sint_lt [of n] by simp
  moreover have "- (2 ^ 63) \<le> sint i" using sint_ge [of i] by simp
  ultimately show ?thesis
    by (simp add: sint_word_ariths signed_take_bit_int_eq_self)
qed

termination createWorkers_loop
  by (relation "measure (\<lambda>(c, i, n, s). nat (sint n - sint i))")
     (auto simp: sint_succ_below word_sless_alt)


declare createWorkers_loop.simps [simp del]

lemma createWorkers_loop_funpow:
  "i \<le>s n \<Longrightarrow> createWorkers_loop c i n s = (c ^^ nat (sint n - sint i)) s"
proof (induction c i n s rule: createWorkers_loop.induct)
  case (1 c i n s)
  show ?case
  proof (cases "i <s n")
    case True
    then have le: "i + 1 \<le>s n"
      by (simp add: word_sle_eq word_sless_alt sint_succ_below)
    have "nat (sint n - sint i) = Suc (nat (sint n - sint (i + 1)))"
      using True by (simp add: sint_succ_below word_sless_alt)
    moreover have "createWorkers_loop c i n s = createWorkers_loop c (i + 1) n (c s)"
      using True by (subst createWorkers_loop.simps) simp
    ultimately show ?thesis
      using "1.IH" [OF True le] by (simp add: funpow_swap1)
  next
    case False
    then have "nat (sint n - sint i) = 0"
      by (simp add: word_sless_alt)
    moreover have "createWorkers_loop c i n s = s"
      using False by (subst createWorkers_loop.simps) simp
    ultimately show ?thesis by simp
  qed
qed

lemma sint_nonneg_unat: "0 \<le> sint n \<Longrightarrow> nat (sint n) = unat n" for n :: go_int
proof -
  assume nn: "0 \<le> sint n"
  have "sint n < 2 ^ 63" using sint_lt [of n] by simp
  then have "sint n < 2 ^ 64" by simp
  with nn have "take_bit 64 (sint n) = sint n"
    by (simp add: take_bit_int_eq_self)
  then have "uint n = sint n" using uint_sint [of n] by simp
  then show ?thesis by (simp add: unat_eq_nat_uint del: nat_uint_eq)
qed

lemma createWorkers_loop_count:
  "0 <s n \<Longrightarrow> createWorkers_loop c 0 n s = (c ^^ unat n) s"
proof -
  assume pos: "0 <s n"
  then have "nat (sint n) = unat n"
    by (simp add: word_sless_alt sint_nonneg_unat)
  moreover have "(0::go_int) \<le>s n" using pos by (simp add: word_sle_eq word_sless_alt)
  ultimately show ?thesis
    using createWorkers_loop_funpow [of 0 n c s] by simp
qed

subsection \<open>Properties of \<open>NewPool\<close>\<close>

lemma DefaultConfig_fields:
  "DefaultConfig env = \<lparr>MinWorkers = NumCPU env, MaxWorkers = NumCPU env * 2,
       KeepAlive = 60000000000, QueueSize = 1000\<rparr>"
  by (simp add: DefaultConfig_def time_Second_def Let_def)

lemma double_positive:
  "0 <s c \<Longrightarrow> c <s 2 ^ 62 \<Longrightarrow> 0 <s c * 2 \<and> c \<le>s c * 2" for c :: go_int
proof -
  assume a: "0 <s c" "c <s 2 ^ 62"
  then have r: "0 < sint c" "sint c < 2 ^ 62"
    by (simp_all add: word_sless_alt)
  then have "sint (c * 2) = 2 * sint c"
    by (simp add: sint_word_ariths signed_take_bit_int_eq_self)
  with r show ?thesis by (simp add: word_sless_alt word_sle_eq)
qed

lemma NewPool_Err_iff:
  "(\<exists>msg. NewPool env cw (Some cfg) = Err msg) \<longleftrightarrow>
     (MinWorkers cfg \<le>s 0 \<or> MaxWorkers cfg \<le>s 0 \<or> MaxWorkers cfg <s MinWorkers cfg)"
  by (auto simp: NewPool_def Let_def split: option.splits)

lemma NewPool_Ok:
  assumes "NewPool env cw (Some cfg) = Ok st"
  shows "st = ((cw ^^ unat (MinWorkers cfg))
              \<lparr>pool = \<lparr>minWorkers = ucast (MinWorkers cfg), maxWorkers = ucast (MaxWorkers cfg),
                 keepAlive = KeepAlive cfg, queueSize = QueueSize cfg,
                 currentWorkers = 0, idleWorkers = 0, runningTasks = 0,
                 totalTasks = 0, completedTasks = 0, failedTasks = 0,
                 taskQueue = \<lparr>chan_cap = QueueSize cfg, chan_buf = []\<rparr>,
                 workerQueue = \<lparr>chan_cap = MaxWorkers cfg, chan_buf = []\<rparr>,
                 quit = \<lparr>chan_cap = 0, chan_buf = []\<rparr>, pool_closed = 0\<rparr>,
               goroutines = []\<rparr>)
             \<lparr>goroutines := goroutines ((cw ^^ unat (MinWorkers cfg))
              \<lparr>pool = \<lparr>minWorkers = ucast (MinWorkers cfg), maxWorkers = ucast (MaxWorkers cfg),
                 keepAlive = KeepAlive cfg, queueSize = QueueSize cfg,
                 currentWorkers = 0, idleWorkers = 0, runningTasks = 0,
                 totalTasks = 0, completedTasks = 0, failedTasks = 0,
                 taskQueue = \<lparr>chan_cap = QueueSize cfg, chan_buf = []\<rparr>,
                 workerQueue = \<lparr>chan_cap = MaxWorkers cfg, chan_buf = []\<rparr>,
                 quit = \<lparr>chan_cap = 0, chan_buf = []\<rparr>, pool_closed = 0\<rparr>,
               goroutines = []\<rparr>) @ [PoolDispatcher]\<rparr>"
proof -
  from assms have pos: "0 <s MinWorkers cfg"
    by (auto simp: NewPool_def Let_def word_sless_alt word_sle_eq split: if_splits)
  from assms show ?thesis
    by (auto simp: NewPool_def Let_def make_chan_def createWorkers_loop_count [OF pos]
        split: if_splits option.splits)
qed


lemma funpow_keeps:
  "(\<And>s. f (c s) = f s) \<Longrightarrow> f ((c ^^ k) s) = f s"
  by (induction k) simp_all

text \<open>
  Claim C9. For every non-nil \<open>Config\<close>, \<open>NewPool\<close> returns an error if and only if
  \<open>MinWorkers \<le> 0\<close>, or \<open>MaxWorkers \<le> 0\<close>, or \<open>MinWorkers > MaxWorkers\<close>. With a nil
  \<open>Config\<close> it behaves as with \<open>MinWorkers = NumCPU\<close>, \<open>MaxWorkers = 2 * NumCPU\<close>,
  \<open>KeepAlive\<close> of 60 seconds (in nanoseconds) and \<open>QueueSize = 1000\<close>, and returns no
  error, \<open>NumCPU\<close> being the positive CPU count of the runtime (below \<open>2 ^ 62\<close>, so
  that doubling it does not wrap). On success the pool was built with a \<open>taskQueue\<close>
  of capacity \<open>QueueSize\<close> and a \<open>workerQueue\<close> of capacity \<open>MaxWorkers\<close>, \<open>createWorker\<close>
  ran exactly \<open>MinWorkers\<close> times on it, and the dispatcher was started last; the
  returned pool still has these two queues whenever \<open>createWorker\<close> does not
  replace them.
\<close>

theorem NewPool_spec:
  "((\<exists>msg. NewPool env cw (Some cfg) = Err msg) \<longleftrightarrow>
      (MinWorkers cfg \<le>s 0 \<or> MaxWorkers cfg \<le>s 0 \<or> MaxWorkers cfg <s MinWorkers cfg))
   \<and> NewPool env cw None =
       NewPool env cw (Some \<lparr>MinWorkers = NumCPU env, MaxWorkers = NumCPU env * 2,
                               KeepAlive = 60000000000, QueueSize = 1000\<rparr>)
   \<and> (0 <s NumCPU env \<and> NumCPU env <s 2 ^ 62 \<longrightarrow> (\<forall>msg. NewPool env cw None \<noteq> Err msg))
   \<and> (\<forall>st. NewPool env cw (Some cfg) = Ok st \<longrightarrow>
        (let p0 = \<lparr>minWorkers = ucast (MinWorkers cfg), maxWorkers = ucast (MaxWorkers cfg),
                   keepAlive = KeepAlive cfg, queueSize = QueueSize cfg,
                   currentWorkers = 0, idleWorkers = 0, runningTasks = 0,
                   totalTasks = 0, completedTasks = 0, failedTasks = 0,
                   taskQueue = \<lparr>chan_cap = QueueSize cfg, chan_buf = []\<rparr>,
                   workerQueue = \<lparr>chan_cap = MaxWorkers cfg, chan_buf = []\<rparr>,
                   quit = \<lparr>chan_cap = 0, chan_buf = []\<rparr>, pool_closed = 0\<rparr>;
             s = (cw ^^ unat (MinWorkers cfg)) \<lparr>pool = p0, goroutines = []\<rparr>
         in st = s\<lparr>goroutines := goroutines s @ [PoolDispatcher]\<rparr>
            \<and> ((\<forall>s'. taskQueue (pool (cw s')) = taskQueue (pool s')
                     \<and> workerQueue (pool (cw s')) = workerQueue (pool s')) \<longrightarrow>
                 chan_cap (taskQueue (pool st)) = QueueSize cfg
                 \<and> chan_cap (workerQueue (pool st)) = MaxWorkers cfg)))"
proof (intro conjI allI impI)
  show "(\<exists>msg. NewPool env cw (Some cfg) = Err msg) \<longleftrightarrow>
      (MinWorkers cfg \<le>s 0 \<or> MaxWorkers cfg \<le>s 0 \<or> MaxWorkers cfg <s MinWorkers cfg)"
    by (rule NewPool_Err_iff)
next
  show "NewPool env cw None =
       NewPool env cw (Some \<lparr>MinWorkers = NumCPU env, MaxWorkers = NumCPU env * 2,
                               KeepAlive = 60000000000, QueueSize = 1000\<rparr>)"
    by (simp add: NewPool_def DefaultConfig_fields)
next
  fix msg
  assume cpu: "0 <s NumCPU env \<and> NumCPU env <s 2 ^ 62"
  then have d: "0 <s NumCPU env * 2" "NumCPU env \<le>s NumCPU env * 2"
    using double_positive [of "NumCPU env"] by simp_all
  have "\<not> NumCPU env \<le>s 0" "\<not> NumCPU env * 2 \<le>s 0" "\<not> NumCPU env * 2 <s NumCPU env"
    using cpu d by (simp_all add: word_sless_alt word_sle_eq)
  then show "NewPool env cw None \<noteq> Err msg"
    by (simp add: NewPool_def DefaultConfig_fields Let_def split: option.splits)
next
  fix st
  assume ok: "NewPool env cw (Some cfg) = Ok st"
  let ?p0 = "\<lparr>minWorkers = ucast (MinWorkers cfg), maxWorkers = ucast (MaxWorkers cfg),
                   keepAlive = KeepAlive cfg, queueSize = QueueSize cfg,
                   currentWorkers = 0, idleWorkers = 0, runningTasks = 0,
                   totalTasks = 0, completedTasks = 0, failedTasks = 0,
                   taskQueue = \<lparr>chan_cap = QueueSize cfg, chan_buf = []\<rparr>,
                   workerQueue = \<lparr>chan_cap = MaxWorkers cfg, chan_buf = []\<rparr>,
                   quit = \<lparr>chan_cap = 0, chan_buf = []\<rparr>, pool_closed = 0\<rparr> :: 'a Pool"
  let ?s = "(cw ^^ unat (MinWorkers cfg)) \<lparr>pool = ?p0, goroutines = []\<rparr>"
  have st: "st = ?s\<lparr>goroutines := goroutines ?s @ [PoolDispatcher]\<rparr>"
    using NewPool_Ok [OF ok] .
  have keep: "chan_cap (taskQueue (pool st)) = QueueSize cfg
                 \<and> chan_cap (workerQueue (pool st)) = MaxWorkers cfg"
    if k: "\<forall>s'. taskQueue (pool (cw s')) = taskQueue (pool s')
                     \<and> workerQueue (pool (cw s')) = workerQueue (pool s')"
  proof -
    have "taskQueue (pool ?s) = taskQueue ?p0"
      using funpow_keeps [of "\<lambda>s. taskQueue (pool s)" cw] k by simp
    moreover have "workerQueue (pool ?s) = workerQueue ?p0"
      using funpow_keeps [of "\<lambda>s. workerQueue (pool s)" cw] k by simp
    ultimately show ?thesis by (simp add: st)
  qed
  show "let p0 = ?p0; s = (cw ^^ unat (MinWorkers cfg)) \<lparr>pool = p0, goroutines = []\<rparr>
         in st = s\<lparr>goroutines := goroutines s @ [PoolDispatcher]\<rparr>
            \<and> ((\<forall>s'. taskQueue (pool (cw s')) = taskQueue (pool s')
                     \<and> workerQueue (pool (cw s')) = workerQueue (pool s')) \<longrightarrow>
                 chan_cap (taskQueue (pool st)) = QueueSize cfg
                 \<and> chan_cap (workerQueue (pool st)) = MaxWorkers cfg)"
    unfolding Let_def using st keep by blast
qed

theorem NewPool_spec_witness:
  "NewPool env4 incWorker (Some \<lparr>MinWorkers = 2, MaxWorkers = 3, KeepAlive = 5, QueueSize = 7\<rparr>)
     = Ok (\<lparr>pool = \<lparr>minWorkers = 2, maxWorkers = 3, keepAlive = 5, queueSize = 7,
                 currentWorkers = 2, idleWorkers = 0, runningTasks = 0,
                 totalTasks = 0, completedTasks = 0, failedTasks = 0,
                 taskQueue = \<lparr>chan_cap = 7, chan_buf = []\<rparr>,
                 workerQueue = \<lparr>chan_cap = 3, chan_buf = []\<rparr>,
                 quit = \<lparr>chan_cap = 0, chan_buf = []\<rparr>, pool_closed = 0\<rparr>,
            goroutines = [PoolWorker, PoolWorker, PoolDispatcher]\<rparr> :: unit PoolState)
   \<and> (\<forall>msg. NewPool env4 (incWorker :: unit PoolState \<Rightarrow> _) None \<noteq> Err msg)
   \<and> (\<exists>msg. NewPool env4 (incWorker :: unit PoolState \<Rightarrow> _)
          (Some \<lparr>MinWorkers = 3, MaxWorkers = 2, KeepAlive = 5, QueueSize = 7\<rparr>) = Err msg)"
proof -
  let ?cfg = "\<lparr>MinWorkers = 2, MaxWorkers = 3, KeepAlive = 5, QueueSize = 7\<rparr>"
  let ?bad = "\<lparr>MinWorkers = 3, MaxWorkers = 2, KeepAlive = 5, QueueSize = 7\<rparr>"
  obtain st :: "unit PoolState" where ok: "NewPool env4 incWorker (Some ?cfg) = Ok st"
    by (simp add: NewPool_def env4_def make_chan_def Let_def word_sle_eq word_sless_alt)
  have cpu: "0 <s NumCPU env4 \<and> NumCPU env4 <s 2 ^ 62"
    by (simp add: env4_def word_sless_alt)
  note spec = NewPool_spec [of env4 "incWorker :: unit PoolState \<Rightarrow> _" ?cfg]
  have twice: "(incWorker ^^ 2) s0 = incWorker (incWorker s0)" for s0 :: "unit PoolState"
    by (simp add: numeral_2_eq_2)
  have "st = \<lparr>pool = \<lparr>minWorkers = 2, maxWorkers = 3, keepAlive = 5, queueSize = 7,
                 currentWorkers = 2, idleWorkers = 0, runningTasks = 0,
                 totalTasks = 0, completedTasks = 0, failedTasks = 0,
                 taskQueue = \<lparr>chan_cap = 7, chan_buf = []\<rparr>,
                 workerQueue = \<lparr>chan_cap = 3, chan_buf = []\<rparr>,
                 quit = \<lparr>chan_cap = 0, chan_buf = []\<rparr>, pool_closed = 0\<rparr>,
            goroutines = [PoolWorker, PoolWorker, PoolDispatcher]\<rparr>"
    using spec ok by (simp add: Let_def twice incWorker_def)
  moreover have "\<forall>msg. NewPool env4 (incWorker :: unit PoolState \<Rightarrow> _) None \<noteq> Err msg"
    using spec cpu by blast
  moreover have "\<exists>msg. NewPool env4 (incWorker :: unit PoolState \<Rightarrow> _) (Some ?bad) = Err msg"
    using NewPool_spec [of env4 "incWorker :: unit PoolState \<Rightarrow> _" ?bad]
    by (simp add: word_sle_eq word_sless_alt)
  ultimately show ?thesis using ok by simp
qed


section \<open>The scheduler snippet: \<open>schedule\<close>\<close>

text \<open>
  The part of the runtime state that \<open>schedule\<close> reads and writes itself: the global
  \<open>sched\<close> (\<open>gcwaiting\<close>, \<open>runqsize\<close>, its lock) and the current P (\<open>preempt\<close>,
  \<open>schedtick\<close>). Everything else (the run queues, the goroutines) is \<open>rest\<close>, and is
  touched only by the runtime functions that \<open>schedule\<close> calls: \<open>gcstopm\<close>,
  \<open>globrunqget\<close>, \<open>runqget\<close>, \<open>findrunnable\<close> and \<open>execute\<close>. The notes give none of these
  in a runnable form (their \<open>findrunnable\<close> reads an undeclared variable and calls a
  dozen functions that are not reproduced), so they are parameters: any functions of
  the state. A nil \<open>*g\<close> is \<open>None\<close>. \<open>findrunnable\<close> may block for ever: it returns an
  option. \<open>execute\<close> switches to the goroutine and does not come back; its result is
  the state in which the goroutine runs.
\<close>

record 'r runtime =
  sched_gcwaiting :: "32 word"
  sched_runqsize :: "32 word"
  sched_lock :: bool
  p_preempt :: bool
  p_schedtick :: "32 word"
  rest :: 'r

record ('g, 'r) sched_ops =
  gcstopm :: "'r runtime \<Rightarrow> 'r runtime"
  globrunqget :: "32 word \<Rightarrow> 'r runtime \<Rightarrow> 'g option \<times> 'r runtime"
  runqget :: "'r runtime \<Rightarrow> ('g option \<times> bool) \<times> 'r runtime"
  findrunnable :: "'r runtime \<Rightarrow> (('g option \<times> bool) \<times> 'r runtime) option"
  execute :: "'g option \<Rightarrow> bool \<Rightarrow> 'r runtime \<Rightarrow> 'r runtime"

definition lock_sched :: "'r runtime \<Rightarrow> 'r runtime" where
  "lock_sched s = s\<lparr>sched_lock := True\<rparr>"

definition unlock_sched :: "'r runtime \<Rightarrow> 'r runtime" where
  "unlock_sched s = s\<lparr>sched_lock := False\<rparr>"

text \<open>
  \<^verbatim>\<open>goto top\<close> after \<open>gcstopm\<close> is the recursive call: \<open>schedule\<close> need not return while
  the collector keeps \<open>gcwaiting\<close> set, and \<open>None\<close> is that outcome.
\<close>

partial_function (option) schedule :: "('g, 'r) sched_ops \<Rightarrow> 'r runtime \<Rightarrow> 'r runtime option" where
  "schedule X s0 =
     (let s = s0\<lparr>p_preempt := False\<rparr> in
      if sched_gcwaiting s \<noteq> 0 then schedule X (gcstopm X s)
      else
        (let (gp, s) =
               (if p_schedtick s mod 61 = 0 \<and> 0 <s sched_runqsize s
                then (let s = lock_sched s;
                          (gp, s) = globrunqget X 1 s;
                          s = unlock_sched s
                      in (gp, s))
                else (None, s));
             ((gp, inheritTime), s) =
               (if gp = None then runqget X s else ((gp, False), s))
         in if gp = None
            then (case findrunnable X s of
                    None \<Rightarrow> None
                  | Some ((gp, inheritTime), s) \<Rightarrow> Some (execute X gp inheritTime s))
            else Some (execute X gp inheritTime s)))"


text \<open>
  A small runtime for concrete runs: queues of goroutine ids; \<open>findrunnable\<close> takes from
  the global queue and blocks when it is empty; \<open>execute\<close> notes the running goroutine
  and counts the tick unless the time slice is inherited.
\<close>

record demo_queues =
  globq :: "nat list"
  localq :: "nat list"
  running :: "nat option"

definition demo_ops :: "(nat, demo_queues) sched_ops" where
  "demo_ops =
     \<lparr>gcstopm = (\<lambda>s. s\<lparr>sched_gcwaiting := 0\<rparr>),
      globrunqget = (\<lambda>max s.
         case globq (rest s) of
           [] \<Rightarrow> (None, s)
         | g # gs \<Rightarrow> (Some g, s\<lparr>sched_runqsize := sched_runqsize s - 1,
                                  rest := (rest s)\<lparr>globq := gs\<rparr>\<rparr>)),
      runqget = (\<lambda>s.
         case localq (rest s) of
           [] \<Rightarrow> ((None, False), s)
         | g # gs \<Rightarrow> ((Some g, False), s\<lparr>rest := (rest s)\<lparr>localq := gs\<rparr>\<rparr>)),
      findrunnable = (\<lambda>s.
         case globq (rest s) of
           [] \<Rightarrow> None
         | g # gs \<Rightarrow> Some ((Some g, False), s\<lparr>sched_runqsize := sched_runqsize s - 1,
                                  rest := (rest s)\<lparr>globq := gs\<rparr>\<rparr>)),
      execute = (\<lambda>gp inheritTime s.
         s\<lparr>p_schedtick := (if inheritTime then p_schedtick s else p_schedtick s + 1),
           rest := (rest s)\<lparr>running := gp\<rparr>\<rparr>)\<rparr>"

subsection \<open>The order in which \<open>schedule\<close> looks for a goroutine\<close>

text \<open>
  Claim C6. While \<open>gcwaiting\<close> is set, \<open>schedule\<close> calls \<open>gcstopm\<close> and starts again. Then
  it picks in a fixed order. First, when \<open>schedtick\<close> is a multiple of 61 and
  \<open>runqsize > 0\<close>, it asks \<open>globrunqget\<close> for one goroutine, with \<open>sched.lock\<close> held
  around the call. If that gave nothing (or was not tried) it asks \<open>runqget\<close> for the
  local queue of the P. If that is empty too it falls back to \<open>findrunnable\<close>.
  The goroutine found is passed to \<open>execute\<close>, with \<open>inheritTime\<close> false for the
  global queue and as returned by \<open>runqget\<close> or \<open>findrunnable\<close> otherwise.
\<close>

theorem schedule_order:
  "schedule X s0 =
     (let s = s0\<lparr>p_preempt := False\<rparr>;
          local_then_find = (\<lambda>s.
            case runqget X s of
              ((Some g, inheritTime), s') \<Rightarrow> Some (execute X (Some g) inheritTime s')
            | ((None, inheritTime), s') \<Rightarrow>
                map_option (\<lambda>((gp, inheritTime), s''). execute X gp inheritTime s'')
                  (findrunnable X s'))
      in if sched_gcwaiting s0 \<noteq> 0 then schedule X (gcstopm X s)
         else if p_schedtick s0 mod 61 = 0 \<and> 0 <s sched_runqsize s0
         then (case globrunqget X 1 (s\<lparr>sched_lock := True\<rparr>) of
                 (Some g, s') \<Rightarrow> Some (execute X (Some g) False (s'\<lparr>sched_lock := False\<rparr>))
               | (None, s') \<Rightarrow> local_then_find (s'\<lparr>sched_lock := False\<rparr>))
         else local_then_find s)"
  by (subst schedule.simps)
     (auto simp: Let_def lock_sched_def unlock_sched_def map_option_case
           split: prod.splits option.splits)

theorem schedule_order_witness:
  "schedule demo_ops
     \<lparr>sched_gcwaiting = 1, sched_runqsize = 1, sched_lock = False, p_preempt = True,
      p_schedtick = 122, rest = \<lparr>globq = [7], localq = [3], running = None\<rparr>\<rparr>
   = Some \<lparr>sched_gcwaiting = 0, sched_runqsize = 0, sched_lock = False, p_preempt = False,
      p_schedtick = 123, rest = \<lparr>globq = [], localq = [3], running = Some 7\<rparr>\<rparr>
   \<and> schedule demo_ops
     \<lparr>sched_gcwaiting = 0, sched_runqsize = 1, sched_lock = False, p_preempt = True,
      p_schedtick = 5, rest = \<lparr>globq = [7], localq = [3], running = None\<rparr>\<rparr>
   = Some \<lparr>sched_gcwaiting = 0, sched_runqsize = 1, sched_lock = False, p_preempt = False,
      p_schedtick = 6, rest = \<lparr>globq = [7], localq = [], running = Some 3\<rparr>\<rparr>
   \<and> schedule demo_ops
     \<lparr>sched_gcwaiting = 0, sched_runqsize = 1, sched_lock = False, p_preempt = True,
      p_schedtick = 5, rest = \<lparr>globq = [7], localq = [], running = None\<rparr>\<rparr>
   = Some \<lparr>sched_gcwaiting = 0, sched_runqsize = 0, sched_lock = False, p_preempt = False,
      p_schedtick = 6, rest = \<lparr>globq = [], localq = [], running = Some 7\<rparr>\<rparr>"
proof -
  have m: "(122 :: 32 word) mod 61 = 0" "(5 :: 32 word) mod 61 \<noteq> 0"
    by (simp_all add: word_mod_def)
  have gc: "schedule demo_ops
     \<lparr>sched_gcwaiting = 1, sched_runqsize = 1, sched_lock = False, p_preempt = True,
      p_schedtick = 122, rest = \<lparr>globq = [7], localq = [3], running = None\<rparr>\<rparr>
    = schedule demo_ops
     \<lparr>sched_gcwaiting = 0, sched_runqsize = 1, sched_lock = False, p_preempt = False,
      p_schedtick = 122, rest = \<lparr>globq = [7], localq = [3], running = None\<rparr>\<rparr>"
    by (subst schedule_order) (simp add: demo_ops_def)
  have global: "schedule demo_ops
     \<lparr>sched_gcwaiting = 0, sched_runqsize = 1, sched_lock = False, p_preempt = False,
      p_schedtick = 122, rest = \<lparr>globq = [7], localq = [3], running = None\<rparr>\<rparr>
   = Some \<lparr>sched_gcwaiting = 0, sched_runqsize = 0, sched_lock = False, p_preempt = False,
      p_schedtick = 123, rest = \<lparr>globq = [], localq = [3], running = Some 7\<rparr>\<rparr>"
    by (subst schedule_order) (simp add: demo_ops_def m word_sless_alt)
  have local: "schedule demo_ops
     \<lparr>sched_gcwaiting = 0, sched_runqsize = 1, sched_lock = False, p_preempt = True,
      p_schedtick = 5, rest = \<lparr>globq = [7], localq = [3], running = None\<rparr>\<rparr>
   = Some \<lparr>sched_gcwaiting = 0, sched_runqsize = 1, sched_lock = False, p_preempt = False,
      p_schedtick = 6, rest = \<lparr>globq = [7], localq = [], running = Some 3\<rparr>\<rparr>"
    by (subst schedule_order) (simp add: demo_ops_def m word_sless_alt)
  have find: "schedule demo_ops
     \<lparr>sched_gcwaiting = 0, sched_runqsize = 1, sched_lock = False, p_preempt = True,
      p_schedtick = 5, rest = \<lparr>globq = [7], localq = [], running = None\<rparr>\<rparr>
   = Some \<lparr>sched_gcwaiting = 0, sched_runqsize = 0, sched_lock = False, p_preempt = False,
      p_schedtick = 6, rest = \<lparr>globq = [], localq = [], running = Some 7\<rparr>\<rparr>"
    by (subst schedule_order) (simp add: demo_ops_def m word_sless_alt)
  show ?thesis
    using gc global local find by (simp only:)
qed


section \<open>The channel snippet: \<open>hchan\<close> and \<open>chansend\<close>\<close>

text \<open>
  \<open>uint\<close> is the 64-bit unsigned word. The buffer is the list of its \<open>dataqsiz\<close> slots,
  \<open>chanbuf(c, i)\<close> its \<open>i\<close>-th slot, and the element type is the type of the list's
  elements (the field \<open>elemtype\<close> has no further role). A wait queue is the list of its
  sudogs, first in first out: \<open>dequeue\<close> takes the head and \<open>enqueue\<close> appends. A nil
  \<open>*hchan\<close> is \<open>None\<close>. The lock is held or free; \<open>lock\<close> is modelled for a caller that
  finds it free.
\<close>

type_synonym go_uint = "64 word"

record 'e sudog =
  sg_g :: nat
  sg_elem :: "'e option"
  sg_releasetime :: "64 word"
  sg_waitlink :: "unit option"
  sg_isSelect :: bool
  sg_c :: bool

record 'e hchan =
  qcount :: go_uint
  dataqsiz :: go_uint
  buf :: "'e list"
  elemsize :: "16 word"
  closed :: "32 word"
  sendx :: go_uint
  recvx :: go_uint
  recvq :: "'e sudog list"
  sendq :: "'e sudog list"
  lock :: bool

record 'e g =
  goid :: nat
  waiting :: "'e sudog option"
  param :: "'e sudog option"
  activeStackChans :: bool

record ('e, 'r) world =
  curg :: "'e g"
  others :: 'r

datatype ('e, 'r) outcome =
    Returned bool "'e hchan option" "('e, 'r) world"
  | Panic string "'e hchan option" "('e, 'r) world"
  | Parked "'e hchan option" "('e, 'r) world"
  | Throw string "'e hchan option" "('e, 'r) world"

text \<open>
  \<open>full\<close> and \<open>send\<close> are called by \<open>chansend\<close> and not reproduced in the notes: they are
  parameters. \<open>send\<close> is given the channel, the receiver's sudog, the element and the
  function that releases the lock.
\<close>

record ('e, 'r) chan_ops =
  full :: "'e hchan \<Rightarrow> bool"
  send :: "'e hchan \<Rightarrow> 'e sudog \<Rightarrow> 'e \<Rightarrow> ('e hchan \<Rightarrow> 'e hchan) \<Rightarrow> ('e, 'r) world
            \<Rightarrow> 'e hchan \<times> ('e, 'r) world"

definition lock_chan :: "'e hchan \<Rightarrow> 'e hchan" where
  "lock_chan c = c\<lparr>lock := True\<rparr>"

definition unlock_chan :: "'e hchan \<Rightarrow> 'e hchan" where
  "unlock_chan c = c\<lparr>lock := False\<rparr>"

text \<open>
  \<open>chansend\<close> up to the point where the sender parks. \<open>gopark\<close> on a nil channel never
  returns; \<open>gopark\<close> on the send queue is handed the lock to release, and the sender
  continues in \<open>chansend_wakeup\<close> once another goroutine has made it runnable.
\<close>

definition chansend ::
  "('e, 'r) chan_ops \<Rightarrow> 'e hchan option \<Rightarrow> 'e \<Rightarrow> bool \<Rightarrow> ('e, 'r) world \<Rightarrow> ('e, 'r) outcome" where
  "chansend X c0 ep block w =
     (case c0 of
        None \<Rightarrow> if \<not> block then Returned False None w else Parked None w
      | Some c \<Rightarrow>
          if \<not> block \<and> closed c = 0 \<and> full X c then Returned False (Some c) w
          else
            (let c = lock_chan c in
             if closed c \<noteq> 0 then Panic ''send on closed channel'' (Some (unlock_chan c)) w
             else
               (case recvq c of
                  sg # waiters \<Rightarrow>
                    (let (c, w) = send X (c\<lparr>recvq := waiters\<rparr>) sg ep unlock_chan w
                     in Returned True (Some c) w)
                | [] \<Rightarrow>
                    if qcount c < dataqsiz c then
                      (let c = c\<lparr>buf := (buf c)[unat (sendx c) := ep]\<rparr>;
                           c = c\<lparr>sendx := sendx c + 1\<rparr>;
                           c = (if sendx c = dataqsiz c then c\<lparr>sendx := 0\<rparr> else c);
                           c = c\<lparr>qcount := qcount c + 1\<rparr>
                       in Returned True (Some (unlock_chan c)) w)
                    else if \<not> block then Returned False (Some (unlock_chan c)) w
                    else
                      (let gp = curg w;
                           mysg = \<lparr>sg_g = goid gp, sg_elem = Some ep, sg_releasetime = 0,
                                   sg_waitlink = None, sg_isSelect = False, sg_c = True\<rparr>;
                           gp = gp\<lparr>waiting := Some mysg, param := None\<rparr>;
                           c = c\<lparr>sendq := sendq c @ [mysg]\<rparr>
                       in Parked (Some c) (w\<lparr>curg := gp\<rparr>)))))"

definition chansend_wakeup ::
  "'e sudog \<Rightarrow> 'e hchan \<Rightarrow> ('e, 'r) world \<Rightarrow> ('e, 'r) outcome" where
  "chansend_wakeup mysg c w =
     (let gp = curg w in
      if Some mysg \<noteq> waiting gp then Throw ''G waiting list is corrupted'' (Some c) w
      else
        (let gp = gp\<lparr>waiting := None, activeStackChans := False\<rparr>;
             closed_flag = (param gp = None);
             gp = gp\<lparr>param := None\<rparr>;
             w = w\<lparr>curg := gp\<rparr>
         in if closed_flag then
              (if closed c = 0 then Throw ''chansend: spurious wakeup'' (Some c) w
               else Panic ''send on closed channel'' (Some c) w)
            else Returned True (Some c) w))"

text \<open>
  For concrete runs: \<open>full\<close> as the Go runtime has it (an unbuffered channel is full
  when no receiver waits, a buffered one when every slot is taken), and a \<open>send\<close> that
  notes which goroutine got which element and releases the lock.
\<close>

definition demo_chan_ops :: "('e, (nat \<times> 'e) list) chan_ops" where
  "demo_chan_ops =
     \<lparr>full = (\<lambda>c. if dataqsiz c = 0 then recvq c = [] else qcount c = dataqsiz c),
      send = (\<lambda>c sg ep unlockf w. (unlockf c, w\<lparr>others := others w @ [(sg_g sg, ep)]\<rparr>))\<rparr>"

definition demo_chan :: "nat hchan" where
  "demo_chan =
     \<lparr>qcount = 1, dataqsiz = 2, buf = [10, 0], elemsize = 8, closed = 0, sendx = 1,
      recvx = 0, recvq = [], sendq = [], lock = False\<rparr>"

definition demo_world :: "(nat, (nat \<times> nat) list) world" where
  "demo_world =
     \<lparr>curg = \<lparr>goid = 5, waiting = None, param = None, activeStackChans = False\<rparr>,
      others = []\<rparr>"

subsection \<open>The cases of a send\<close>

text \<open>
  Claim C4. On a channel whose lock is free, \<open>chansend\<close> goes through the cases of the
  runtime's send in order. A send on a closed channel panics with "send on closed
  channel". Otherwise, if a receiver waits in \<open>recvq\<close>, the first one is dequeued and the
  element is handed to it by \<open>send\<close>, and the result is true. Otherwise, if
  \<open>qcount < dataqsiz\<close>, the element is stored in the buffer at \<open>sendx\<close>, \<open>sendx\<close> moves on
  and is reset to 0 when it reaches \<open>dataqsiz\<close>, \<open>qcount\<close> grows by one, and the
  result is true. Otherwise a non-blocking send returns false and leaves the channel
  as it was, and a blocking send appends a sudog for the current goroutine and the
  element to \<open>sendq\<close>, records it as what the goroutine waits on, and parks.
  The early return of a non-blocking send (\<open>full\<close> on an open channel, before the lock
  is taken) is this same last case provided \<open>full\<close> reports a channel as full only when
  no receiver waits and the buffer has no free slot, which is the hypothesis on the
  parameter \<open>full\<close>.
\<close>

theorem chansend_cases:
  assumes free: "\<not> lock c"
    and fast: "\<not> block \<and> closed c = 0 \<and> full X c \<longrightarrow> recvq c = [] \<and> \<not> qcount c < dataqsiz c"
  shows "chansend X (Some c) ep block w =
     (if closed c \<noteq> 0 then Panic ''send on closed channel'' (Some c) w
      else case recvq c of
        sg # waiters \<Rightarrow>
          (case send X (c\<lparr>lock := True, recvq := waiters\<rparr>) sg ep unlock_chan w of
             (c', w') \<Rightarrow> Returned True (Some c') w')
      | [] \<Rightarrow>
          if qcount c < dataqsiz c then
            Returned True
              (Some (c\<lparr>buf := (buf c)[unat (sendx c) := ep],
                       sendx := (if sendx c + 1 = dataqsiz c then 0 else sendx c + 1),
                       qcount := qcount c + 1\<rparr>)) w
          else if \<not> block then Returned False (Some c) w
          else Parked
                 (Some (c\<lparr>sendq := sendq c @
                           [\<lparr>sg_g = goid (curg w), sg_elem = Some ep, sg_releasetime = 0,
                             sg_waitlink = None, sg_isSelect = False, sg_c = True\<rparr>],
                         lock := True\<rparr>))
                 (w\<lparr>curg := (curg w)\<lparr>waiting :=
                          Some \<lparr>sg_g = goid (curg w), sg_elem = Some ep, sg_releasetime = 0,
                             sg_waitlink = None, sg_isSelect = False, sg_c = True\<rparr>,
                        param := None\<rparr>\<rparr>))"
  using free fast
  by (auto simp: chansend_def lock_chan_def unlock_chan_def Let_def split: list.splits prod.splits)


theorem chansend_cases_witness:
  "chansend demo_chan_ops (Some demo_chan) 42 False demo_world =
     Returned True (Some (demo_chan\<lparr>buf := [10, 42], sendx := 0, qcount := 2\<rparr>)) demo_world
   \<and> chansend demo_chan_ops (Some (demo_chan\<lparr>qcount := 2, sendx := 0\<rparr>)) 42 False demo_world =
     Returned False (Some (demo_chan\<lparr>qcount := 2, sendx := 0\<rparr>)) demo_world
   \<and> chansend demo_chan_ops (Some (demo_chan\<lparr>closed := 1\<rparr>)) 42 True demo_world =
     Panic ''send on closed channel'' (Some (demo_chan\<lparr>closed := 1\<rparr>)) demo_world"
proof -
  have a: "chansend demo_chan_ops (Some demo_chan) 42 False demo_world =
     Returned True (Some (demo_chan\<lparr>buf := [10, 42], sendx := 0, qcount := 2\<rparr>)) demo_world"
    by (subst chansend_cases) (simp_all add: demo_chan_def demo_chan_ops_def)
  have b: "chansend demo_chan_ops (Some (demo_chan\<lparr>qcount := 2, sendx := 0\<rparr>)) 42 False demo_world =
     Returned False (Some (demo_chan\<lparr>qcount := 2, sendx := 0\<rparr>)) demo_world"
    by (subst chansend_cases) (simp_all add: demo_chan_def demo_chan_ops_def)
  have c: "chansend demo_chan_ops (Some (demo_chan\<lparr>closed := 1\<rparr>)) 42 True demo_world =
     Panic ''send on closed channel'' (Some (demo_chan\<lparr>closed := 1\<rparr>)) demo_world"
    by (subst chansend_cases) (simp_all add: demo_chan_def demo_chan_ops_def)
  show ?thesis using a b c by (simp only:)
qed

section \<open>The command-line file utility\<close>

text \<open>
  The utility is \<open>main\<close>, \<open>parseFlags\<close>, \<open>printHelp\<close> and eight helpers over Go's \<open>os\<close>, \<open>io\<close>,
  \<open>fmt\<close> and \<open>flag\<close> packages. Those packages are not part of the program: they are
  parameters of the model.

  \<^item> The file system is a state \<open>'w\<close>, and an open file a handle \<open>'h\<close>. Each primitive
    takes the state and returns its Go results together with the new state. A Go
    result \<open>(v, err)\<close> is a pair, with \<open>None\<close> for a nil error: a primitive may return
    a value together with an error, as \<open>os.ReadFile\<close> does when a read fails after
    some bytes have been read, and \<open>os.ReadDir\<close> when listing fails after some entries.
  \<^item> A \<open>[]byte\<close> and a \<open>string\<close> are both sequences of bytes, \<open>string\<close> in HOL; the
    conversions between them change nothing.
  \<^item> Standard output is the text printed, in order.
  \<^item> The mode \<open>0644\<close> is octal: \<open>6 * 64 + 4 * 8 + 4 = 420\<close>.
\<close>

type_synonym FileMode = "32 word"


record DirEntry =
  Name :: string
  IsDir :: bool

datatype open_flag =
  O_RDONLY | O_WRONLY | O_RDWR | O_APPEND | O_CREATE | O_EXCL | O_SYNC | O_TRUNC

record ('w, 'h) os_ops =
  os_Create :: "string \<Rightarrow> 'w \<Rightarrow> ('h \<times> go_error) \<times> 'w"
  os_Open :: "string \<Rightarrow> 'w \<Rightarrow> ('h \<times> go_error) \<times> 'w"
  os_OpenFile :: "string \<Rightarrow> open_flag set \<Rightarrow> FileMode \<Rightarrow> 'w \<Rightarrow> ('h \<times> go_error) \<times> 'w"
  file_Close :: "'h \<Rightarrow> 'w \<Rightarrow> go_error \<times> 'w"
  file_WriteString :: "'h \<Rightarrow> string \<Rightarrow> 'w \<Rightarrow> (go_int \<times> go_error) \<times> 'w"
  os_ReadFile :: "string \<Rightarrow> 'w \<Rightarrow> (string \<times> go_error) \<times> 'w"
  os_WriteFile :: "string \<Rightarrow> string \<Rightarrow> FileMode \<Rightarrow> 'w \<Rightarrow> go_error \<times> 'w"
  io_Copy :: "'h \<Rightarrow> 'h \<Rightarrow> 'w \<Rightarrow> (go_int \<times> go_error) \<times> 'w"
  os_Remove :: "string \<Rightarrow> 'w \<Rightarrow> go_error \<times> 'w"
  os_ReadDir :: "string \<Rightarrow> 'w \<Rightarrow> (DirEntry list \<times> go_error) \<times> 'w"
  os_Rename :: "string \<Rightarrow> string \<Rightarrow> 'w \<Rightarrow> go_error \<times> 'w"

definition perm_0644 :: FileMode where
  "perm_0644 = 6 * 64 + 4 * 8 + 4"

definition createFile :: "('w, 'h) os_ops \<Rightarrow> string \<Rightarrow> 'w \<Rightarrow> go_error \<times> 'w" where
  "createFile os path w =
     (let ((file, err), w) = os_Create os path w in
      case err of
        Some e \<Rightarrow> (Some e, w)
      | None \<Rightarrow> (let (_, w) = file_Close os file w in (None, w)))"

definition readFile :: "('w, 'h) os_ops \<Rightarrow> string \<Rightarrow> 'w \<Rightarrow> (string \<times> go_error) \<times> 'w" where
  "readFile os path w =
     (let ((content, err), w) = os_ReadFile os path w in
      case err of
        Some e \<Rightarrow> (('''', Some e), w)
      | None \<Rightarrow> ((content, None), w))"

definition writeFile :: "('w, 'h) os_ops \<Rightarrow> string \<Rightarrow> string \<Rightarrow> 'w \<Rightarrow> go_error \<times> 'w" where
  "writeFile os path content w = os_WriteFile os path content perm_0644 w"

definition appendToFile :: "('w, 'h) os_ops \<Rightarrow> string \<Rightarrow> string \<Rightarrow> 'w \<Rightarrow> go_error \<times> 'w" where
  "appendToFile os path content w =
     (let ((file, err), w) = os_OpenFile os path {O_APPEND, O_WRONLY} perm_0644 w in
      case err of
        Some e \<Rightarrow> (Some e, w)
      | None \<Rightarrow>
          (let ((_, err), w) = file_WriteString os file content w;
               (_, w) = file_Close os file w
           in case err of Some e \<Rightarrow> (Some e, w) | None \<Rightarrow> (None, w)))"

definition copyFile :: "('w, 'h) os_ops \<Rightarrow> string \<Rightarrow> string \<Rightarrow> 'w \<Rightarrow> go_error \<times> 'w" where
  "copyFile os src dest w =
     (let ((srcFile, err), w) = os_Open os src w in
      case err of
        Some e \<Rightarrow> (Some e, w)
      | None \<Rightarrow>
          (let ((destFile, err), w) = os_Create os dest w in
           case err of
             Some e \<Rightarrow> (let (_, w) = file_Close os srcFile w in (Some e, w))
           | None \<Rightarrow>
               (let ((_, err), w) = io_Copy os destFile srcFile w;
                    (_, w) = file_Close os destFile w;
                    (_, w) = file_Close os srcFile w
                in case err of Some e \<Rightarrow> (Some e, w) | None \<Rightarrow> (None, w))))"

definition deleteFile :: "('w, 'h) os_ops \<Rightarrow> string \<Rightarrow> 'w \<Rightarrow> go_error \<times> 'w" where
  "deleteFile os path w = os_Remove os path w"

definition listFiles ::
  "('w, 'h) os_ops \<Rightarrow> string \<Rightarrow> 'w \<Rightarrow> (string list \<times> go_error) \<times> 'w" where
  "listFiles os path w =
     (let ((entries, err), w) = os_ReadDir os path w in
      case err of
        Some e \<Rightarrow> (([], Some e), w)
      | None \<Rightarrow>
          ((map (\<lambda>entry. if IsDir entry then Name entry @ ''/'' else Name entry) entries,
            None), w))"

definition renameFile :: "('w, 'h) os_ops \<Rightarrow> string \<Rightarrow> string \<Rightarrow> 'w \<Rightarrow> go_error \<times> 'w" where
  "renameFile os oldPath newPath w = os_Rename os oldPath newPath w"










subsection \<open>A file system in memory and a small flag parser, for concrete runs\<close>


datatype node = File string | BadFile string | Dir "DirEntry list"

type_synonym memfs = "(string \<times> node) list"

definition fs_del :: "string \<Rightarrow> memfs \<Rightarrow> memfs" where
  "fs_del p fs = filter (\<lambda>(q, n). q \<noteq> p) fs"

definition fs_put :: "string \<Rightarrow> node \<Rightarrow> memfs \<Rightarrow> memfs" where
  "fs_put p n fs = (p, n) # fs_del p fs"

definition memOS :: "(memfs, string) os_ops" where
  "memOS =
     \<lparr>os_Create = (\<lambda>p fs.
        if p = '''' then (('''', Some ''open : no such file or directory''), fs)
        else case map_of fs p of
          Some (Dir es) \<Rightarrow> (('''', Some (''open '' @ p @ '': is a directory'')), fs)
        | _ \<Rightarrow> ((p, None), fs_put p (File '''') fs)),
      os_Open = (\<lambda>p fs.
        case map_of fs p of
          None \<Rightarrow> (('''', Some (''open '' @ p @ '': no such file or directory'')), fs)
        | Some n \<Rightarrow> ((p, None), fs)),
      os_OpenFile = (\<lambda>p flags perm fs.
        case map_of fs p of
          None \<Rightarrow>
            if O_CREATE \<in> flags then ((p, None), fs_put p (File '''') fs)
            else (('''', Some (''open '' @ p @ '': no such file or directory'')), fs)
        | Some n \<Rightarrow> ((p, None), fs)),
      file_Close = (\<lambda>h fs. (None, fs)),
      file_WriteString = (\<lambda>h s fs.
        case map_of fs h of
          Some (File c) \<Rightarrow> ((word_of_nat (length s), None), fs_put h (File (c @ s)) fs)
        | _ \<Rightarrow> ((0, Some (''write '' @ h @ '': bad file descriptor'')), fs)),
      os_ReadFile = (\<lambda>p fs.
        case map_of fs p of
          None \<Rightarrow> (('''', Some (''open '' @ p @ '': no such file or directory'')), fs)
        | Some (File c) \<Rightarrow> ((c, None), fs)
        | Some (BadFile c) \<Rightarrow> ((c, Some (''read '' @ p @ '': input/output error'')), fs)
        | Some (Dir es) \<Rightarrow> (('''', Some (''read '' @ p @ '': is a directory'')), fs)),
      os_WriteFile = (\<lambda>p c perm fs.
        if p = '''' then (Some ''open : no such file or directory'', fs)
        else case map_of fs p of
          Some (Dir es) \<Rightarrow> (Some (''open '' @ p @ '': is a directory''), fs)
        | _ \<Rightarrow> (None, fs_put p (File c) fs)),
      io_Copy = (\<lambda>dst src fs.
        case map_of fs src of
          Some (File c) \<Rightarrow> ((word_of_nat (length c), None), fs_put dst (File c) fs)
        | Some (BadFile c) \<Rightarrow>
            ((word_of_nat (length c), Some (''read '' @ src @ '': input/output error'')),
             fs_put dst (File c) fs)
        | _ \<Rightarrow> ((0, Some (''read '' @ src @ '': is a directory'')), fs)),
      os_Remove = (\<lambda>p fs.
        case map_of fs p of
          None \<Rightarrow> (Some (''remove '' @ p @ '': no such file or directory''), fs)
        | Some n \<Rightarrow> (None, fs_del p fs)),
      os_ReadDir = (\<lambda>p fs.
        case map_of fs p of
          None \<Rightarrow> (([], Some (''open '' @ p @ '': no such file or directory'')), fs)
        | Some (Dir es) \<Rightarrow> ((es, None), fs)
        | Some n \<Rightarrow> (([], Some (''readdir '' @ p @ '': not a directory'')), fs)),
      os_Rename = (\<lambda>old new fs.
        case map_of fs old of
          None \<Rightarrow>
            (Some (''rename '' @ old @ '' '' @ new @ '': no such file or directory''), fs)
        | Some n \<Rightarrow>
            if new = ''''
            then (Some (''rename '' @ old @ '' : no such file or directory''), fs)
            else (None, fs_put new n (fs_del old fs)))\<rparr>"

subsection \<open>A missing argument\<close>





subsection \<open>The operations that can be selected\<close>



















subsection \<open>The helpers and the primitives they wrap\<close>

text \<open>
  Claim C3 says that \<open>readFile(path)\<close> equals \<open>os.ReadFile(path)\<close> converted to a string,
  for every path. When \<open>os.ReadFile\<close> returns an error, \<open>readFile\<close> returns the empty
  string with it, whatever bytes came with the error: on a file whose read fails
  after the bytes \<open>ab\<close>, the primitive returns \<open>ab\<close> and the error, the helper the empty
  string and the error.
\<close>

theorem readFile_partial_counterexample:
  "os_ReadFile memOS ''bad'' [(''bad'', BadFile ''ab'')] =
     ((''ab'', Some ''read bad: input/output error''), [(''bad'', BadFile ''ab'')])
   \<and> readFile memOS ''bad'' [(''bad'', BadFile ''ab'')] =
     (('''', Some ''read bad: input/output error''), [(''bad'', BadFile ''ab'')])
   \<and> readFile memOS ''bad'' [(''bad'', BadFile ''ab'')] \<noteq>
       os_ReadFile memOS ''bad'' [(''bad'', BadFile ''ab'')]"
  by (simp add: readFile_def memOS_def)

text \<open>
  Claim C3, amended. Each helper is its primitive and nothing more than this:
  \<^item> \<open>readFile\<close> returns what \<open>os.ReadFile\<close> returns when that is no error, and the
    empty string with the error otherwise;
  \<^item> \<open>writeFile\<close> is \<open>os.WriteFile\<close> with mode \<open>0644\<close>, \<open>deleteFile\<close> is \<open>os.Remove\<close>,
    \<open>renameFile\<close> is \<open>os.Rename\<close>;
  \<^item> \<open>createFile\<close> is \<open>os.Create\<close>, followed by \<open>Close\<close> when it succeeded; the error
    of \<open>Close\<close> is dropped;
  \<^item> \<open>copyFile\<close> is \<open>os.Open\<close>, \<open>os.Create\<close> and \<open>io.Copy\<close> in this order, stopping at the
    first error and returning it, and closing on return the files it has opened,
    the destination first;
  \<^item> \<open>listFiles\<close> returns the names of the entries of \<open>os.ReadDir\<close>, with \<open>/\<close> appended
    to the directories, when that is no error, and no name with the error
    otherwise;
  \<^item> \<open>appendToFile\<close>, which the claim does not list, is \<open>os.OpenFile\<close> for appending,
    \<open>WriteString\<close> and \<open>Close\<close>, in the same way.
\<close>

theorem wrappers_thin:
  "readFile os path w =
     (case os_ReadFile os path w of
        ((content, None), w') \<Rightarrow> ((content, None), w')
      | ((content, Some e), w') \<Rightarrow> (('''', Some e), w'))
   \<and> writeFile os path content w = os_WriteFile os path content 420 w
   \<and> deleteFile os path w = os_Remove os path w
   \<and> renameFile os oldPath newPath w = os_Rename os oldPath newPath w
   \<and> createFile os path w =
     (case os_Create os path w of
        ((file, None), w') \<Rightarrow> (None, snd (file_Close os file w'))
      | ((file, Some e), w') \<Rightarrow> (Some e, w'))
   \<and> copyFile os src dest w =
     (case os_Open os src w of
        ((srcFile, Some e), w1) \<Rightarrow> (Some e, w1)
      | ((srcFile, None), w1) \<Rightarrow>
          (case os_Create os dest w1 of
             ((destFile, Some e), w2) \<Rightarrow> (Some e, snd (file_Close os srcFile w2))
           | ((destFile, None), w2) \<Rightarrow>
               (case io_Copy os destFile srcFile w2 of
                  ((written, err), w3) \<Rightarrow>
                    (err, snd (file_Close os srcFile (snd (file_Close os destFile w3)))))))
   \<and> listFiles os path w =
     (case os_ReadDir os path w of
        ((entries, None), w') \<Rightarrow>
          ((map (\<lambda>entry. Name entry @ (if IsDir entry then ''/'' else '''')) entries, None),
           w')
      | ((entries, Some e), w') \<Rightarrow> (([], Some e), w'))
   \<and> appendToFile os path content w =
     (case os_OpenFile os path {O_APPEND, O_WRONLY} 420 w of
        ((file, Some e), w1) \<Rightarrow> (Some e, w1)
      | ((file, None), w1) \<Rightarrow>
          (case file_WriteString os file content w1 of
             ((written, err), w2) \<Rightarrow> (err, snd (file_Close os file w2))))"
proof (intro conjI)
  show "readFile os path w =
     (case os_ReadFile os path w of
        ((content, None), w') \<Rightarrow> ((content, None), w')
      | ((content, Some e), w') \<Rightarrow> (('''', Some e), w'))"
    by (simp add: readFile_def split: prod.splits option.splits)
  show "writeFile os path content w = os_WriteFile os path content 420 w"
    by (simp add: writeFile_def perm_0644_def)
  show "deleteFile os path w = os_Remove os path w"
    by (simp add: deleteFile_def)
  show "renameFile os oldPath newPath w = os_Rename os oldPath newPath w"
    by (simp add: renameFile_def)
  show "createFile os path w =
     (case os_Create os path w of
        ((file, None), w') \<Rightarrow> (None, snd (file_Close os file w'))
      | ((file, Some e), w') \<Rightarrow> (Some e, w'))"
    by (simp add: createFile_def split: prod.splits option.splits)
  show "copyFile os src dest w =
     (case os_Open os src w of
        ((srcFile, Some e), w1) \<Rightarrow> (Some e, w1)
      | ((srcFile, None), w1) \<Rightarrow>
          (case os_Create os dest w1 of
             ((destFile, Some e), w2) \<Rightarrow> (Some e, snd (file_Close os srcFile w2))
           | ((destFile, None), w2) \<Rightarrow>
               (case io_Copy os destFile srcFile w2 of
                  ((written, err), w3) \<Rightarrow>
                    (err, snd (file_Close os srcFile (snd (file_Close os destFile w3)))))))"
    by (simp add: copyFile_def split: prod.splits option.splits)
  show "listFiles os path w =
     (case os_ReadDir os path w of
        ((entries, None), w') \<Rightarrow>
          ((map (\<lambda>entry. Name entry @ (if IsDir entry then ''/'' else '''')) entries, None),
           w')
      | ((entries, Some e), w') \<Rightarrow> (([], Some e), w'))"
    by (simp add: listFiles_def split: prod.splits option.splits)
  show "appendToFile os path content w =
     (case os_OpenFile os path {O_APPEND, O_WRONLY} 420 w of
        ((file, Some e), w1) \<Rightarrow> (Some e, w1)
      | ((file, None), w1) \<Rightarrow>
          (case file_WriteString os file content w1 of
             ((written, err), w2) \<Rightarrow> (err, snd (file_Close os file w2))))"
    by (simp add: appendToFile_def perm_0644_def split: prod.splits option.splits)
qed

theorem wrappers_thin_witness:
  "listFiles memOS ''d''
     [(''d'', Dir [\<lparr>Name = ''x'', IsDir = False\<rparr>, \<lparr>Name = ''y'', IsDir = True\<rparr>])] =
     (([''x'', ''y/''], None),
      [(''d'', Dir [\<lparr>Name = ''x'', IsDir = False\<rparr>, \<lparr>Name = ''y'', IsDir = True\<rparr>])])
   \<and> copyFile memOS ''a.txt'' ''b.txt'' [(''a.txt'', File ''h'')] =
     (None, [(''b.txt'', File ''h''), (''a.txt'', File ''h'')])
   \<and> readFile memOS ''a.txt'' [(''a.txt'', File ''h'')] =
     ((''h'', None), [(''a.txt'', File ''h'')])"
proof -
  note t1 = wrappers_thin [of memOS "''d''"
      "[(''d'', Dir [\<lparr>Name = ''x'', IsDir = False\<rparr>, \<lparr>Name = ''y'', IsDir = True\<rparr>])]"]
  note t2 = wrappers_thin [of memOS "''a.txt''" "[(''a.txt'', File ''h'')]" _ _ _ "''a.txt''" "''b.txt''"]
  have a: "listFiles memOS ''d''
     [(''d'', Dir [\<lparr>Name = ''x'', IsDir = False\<rparr>, \<lparr>Name = ''y'', IsDir = True\<rparr>])] =
     (([''x'', ''y/''], None),
      [(''d'', Dir [\<lparr>Name = ''x'', IsDir = False\<rparr>, \<lparr>Name = ''y'', IsDir = True\<rparr>])])"
    using t1 by (simp add: memOS_def)
  have b: "copyFile memOS ''a.txt'' ''b.txt'' [(''a.txt'', File ''h'')] =
     (None, [(''b.txt'', File ''h''), (''a.txt'', File ''h'')])"
    using t2 by (simp add: memOS_def fs_put_def fs_del_def)
  have c: "readFile memOS ''a.txt'' [(''a.txt'', File ''h'')] =
     ((''h'', None), [(''a.txt'', File ''h'')])"
    using t2 by (simp add: memOS_def)
  show ?thesis using a b c by (simp only:)
qed

end
